theory Spec2Isabelle
  imports Main "HOL-Library.Word"
begin

unbundle bit_operations_syntax

section \<open>The property reader of gstd (gstd\_property\_reader.c)\<close>

text \<open>
  The reader takes a resource (a \<open>GstdObject *\<close>) and a property name, looks the
  property up in the class of the object, checks that it may be read, fetches its value and
  either hands the value back (when it is a gstd object itself) or wraps the property in a
  typed property object chosen from the declared value type.

  The model keeps the pointers of the C code: objects live in a heap, a pointer is an index
  into it and \<open>NULL\<close> is \<open>None\<close>. Everything the two functions do besides returning a
  pointer is recorded in a trace: the diagnostics they log and the calls they make on the
  live object.
\<close>

subsection \<open>GLib data: types, parameter specifications, values\<close>

type_synonym addr = nat

text \<open>
  A \<open>GType\<close> identifies a value type. The fundamental types the dispatcher switches on
  are constants of GLib; the three property wrappers are the types the dispatcher
  instantiates; every other type is registered at run time and is told apart here by whether
  it derives from \<open>GSTD_TYPE_OBJECT\<close> (an element, a list, a pipeline) or not (an
  enumeration such as a state, a boxed structure, an array, a foreign object).
\<close>

datatype GType =
    G_TYPE_BOOLEAN
  | G_TYPE_INT
  | G_TYPE_UINT
  | G_TYPE_INT64
  | G_TYPE_UINT64
  | G_TYPE_STRING
  | G_TYPE_CHAR
  | G_TYPE_LONG
  | G_TYPE_ULONG
  | G_TYPE_ENUM
  | G_TYPE_FLAGS
  | G_TYPE_FLOAT
  | G_TYPE_DOUBLE
  | G_TYPE_POINTER
  | G_TYPE_BOXED
  | G_TYPE_OBJECT
  | GSTD_TYPE_PROPERTY_BOOLEAN
  | GSTD_TYPE_PROPERTY_INT
  | GSTD_TYPE_PROPERTY_STRING
  | GSTD_TYPE string
  | G_TYPE_REGISTERED string

text \<open>\<open>GParamSpec\<close>: the fields of a property descriptor that the reader uses.\<close>

record GParamSpec =
  pspec_name :: string
  pspec_flags :: "32 word"
  pspec_value_type :: GType

text \<open>\<open>G_PARAM_READABLE\<close> is \<open>1 << 0\<close> in GLib's \<open>GParamFlags\<close>.\<close>

definition G_PARAM_READABLE :: "32 word" where
  "G_PARAM_READABLE = 1"

text \<open>
  The current value of a property, in the representation \<open>g_object_get\<close> copies out:
  a \<open>gboolean\<close>, a \<open>gint\<close> or \<open>guint\<close> (also an enumeration or a flags value)
  and the bits of a \<open>gfloat\<close> take four bytes; a \<open>gint64\<close> or \<open>guint64\<close> and the
  bits of a \<open>gdouble\<close> take eight; a string is a \<open>gchar *\<close> that is \<open>NULL\<close> or
  leads to characters; a boxed value is a pointer that is \<open>NULL\<close> (\<open>False\<close>) or
  leads to a structure; an object valued property holds a pointer to an object or
  \<open>NULL\<close>.
\<close>

datatype GValue =
    VBoolean bool
  | VInt "32 word"
  | VInt64 "64 word"
  | VFloat "32 word"
  | VDouble "64 word"
  | VString "string option"
  | VBoxed bool
  | VObject "addr option"

text \<open>
  An object on the heap: its type, its gstd name (\<open>GSTD_OBJECT_NAME\<close>), the properties
  its class declares (\<open>G_OBJECT_GET_CLASS\<close>), the current values of these properties
  by declared name, and, for a property wrapper, the object it was built for.
\<close>

record GObject =
  g_type :: GType
  GSTD_OBJECT_NAME :: string
  g_class :: "GParamSpec list"
  g_props :: "string \<Rightarrow> GValue"
  target :: "addr option"

subsection \<open>The world: heap and trace\<close>

datatype event =
    G_CRITICAL string string
  | GST_ERROR_OBJECT addr string "string list"
  | G_OBJECT_CLASS_FIND_PROPERTY addr string
  | G_OBJECT_GET addr string
  | G_OBJECT_NEW GType string addr

record world =
  heap :: "GObject list"
  trace :: "event list"

text \<open>
  A call either returns a value in a new world, or it faults: it dereferences \<open>NULL\<close>,
  a pointer to no object, or bits that are no pointer at all.
\<close>

datatype 'a outcome = Return 'a world | Fault

definition emit :: "event \<Rightarrow> world \<Rightarrow> world" where
  "emit e w = w\<lparr>trace := trace w @ [e]\<rparr>"

definition deref :: "world \<Rightarrow> addr \<Rightarrow> GObject option" where
  "deref w a = (if a < length (heap w) then Some (heap w ! a) else None)"

text \<open>
  \<open>g_object_class_find_property\<close>: the descriptor of the class with the given name, or
  \<open>NULL\<close>. GLib takes \<open>_\<close> and \<open>-\<close> for the same separator in a property
  name: when no descriptor has the name as it is spelled, the lookup tries the canonical
  spelling, in which every \<open>_\<close> is a \<open>-\<close>.
\<close>

definition canonicalize_key :: "string \<Rightarrow> string" where
  "canonicalize_key key = map (\<lambda>c. if c = CHR ''_'' then CHR ''-'' else c) key"

definition g_object_class_find_property :: "GParamSpec list \<Rightarrow> string \<Rightarrow> GParamSpec option" where
  "g_object_class_find_property klass name =
     (case find (\<lambda>p. pspec_name p = name) klass of
        Some pspec \<Rightarrow> Some pspec
      | None \<Rightarrow> find (\<lambda>p. pspec_name p = canonicalize_key name) klass)"

subsection \<open>The fetch into the pointer variable and the instance check\<close>

text \<open>
  The reader declares \<open>GstdObject *resource\<close> without a value and passes its address to
  \<open>g_object_get\<close>, which copies the value of the property there in the value's own
  representation, whatever that is. What the variable holds afterwards, read as a pointer:
  \<open>NULL\<close>, the address of an object, or bits that are the address of no object (a
  number, or a pointer to characters or to a boxed structure).

  The layout is that of the 64-bit systems gstd is built for: the variable has eight bytes.
  An eight-byte value fills it. A four-byte value fills half of it and leaves the other four
  bytes as the stack had them; these four bytes are the parameter \<open>residue\<close>. The variable
  then reads as \<open>NULL\<close> when all eight bytes are zero. Bits that come from a number are
  taken never to be the address of an object.
\<close>

datatype pointer = NullPtr | ObjectPtr addr | NoObject

fun g_object_get :: "32 word \<Rightarrow> GValue \<Rightarrow> pointer" where
  "g_object_get residue (VBoolean b) = (if \<not> b \<and> residue = 0 then NullPtr else NoObject)"
| "g_object_get residue (VInt v) = (if v = 0 \<and> residue = 0 then NullPtr else NoObject)"
| "g_object_get residue (VFloat v) = (if v = 0 \<and> residue = 0 then NullPtr else NoObject)"
| "g_object_get residue (VInt64 v) = (if v = 0 then NullPtr else NoObject)"
| "g_object_get residue (VDouble v) = (if v = 0 then NullPtr else NoObject)"
| "g_object_get residue (VString None) = NullPtr"
| "g_object_get residue (VString (Some s)) = NoObject"
| "g_object_get residue (VBoxed nonnull) = (if nonnull then NoObject else NullPtr)"
| "g_object_get residue (VObject None) = NullPtr"
| "g_object_get residue (VObject (Some a)) = ObjectPtr a"

text \<open>
  \<open>GSTD_IS_OBJECT\<close>: the instance check against \<open>GSTD_TYPE_OBJECT\<close>. It is false on
  \<open>NULL\<close>. On anything else it follows the pointer to read the class of the instance:
  it answers by the type of the object the pointer leads to, and faults when the pointer
  leads to no object.
\<close>

fun g_type_is_a_gstd_object :: "GType \<Rightarrow> bool" where
  "g_type_is_a_gstd_object GSTD_TYPE_PROPERTY_BOOLEAN = True"
| "g_type_is_a_gstd_object GSTD_TYPE_PROPERTY_INT = True"
| "g_type_is_a_gstd_object GSTD_TYPE_PROPERTY_STRING = True"
| "g_type_is_a_gstd_object (GSTD_TYPE n) = True"
| "g_type_is_a_gstd_object _ = False"

fun GSTD_IS_OBJECT :: "world \<Rightarrow> pointer \<Rightarrow> bool option" where
  "GSTD_IS_OBJECT w NullPtr = Some False"
| "GSTD_IS_OBJECT w (ObjectPtr a) =
     (case deref w a of
        None \<Rightarrow> None
      | Some c \<Rightarrow> Some (g_type_is_a_gstd_object (g_type c)))"
| "GSTD_IS_OBJECT w NoObject = None"

text \<open>
  Modelled from the spec: \<open>g_object_new\<close> on one of the property types runs the
  constructor of gstd\_property.c, which is not among the sources. The spec has the variant
  built with the name and a back-reference to the resource, and has construction never fail.
  The new object takes the next free address; what its own class declares is left empty.
\<close>

definition g_object_new :: "GType \<Rightarrow> string \<Rightarrow> addr \<Rightarrow> world \<Rightarrow> addr option outcome" where
  "g_object_new ty name tgt w =
     Return (Some (length (heap w)))
       (w\<lparr>heap := heap w @
             [\<lparr>g_type = ty, GSTD_OBJECT_NAME = name, g_class = [],
               g_props = (\<lambda>_. VObject None), target = Some tgt\<rparr>],
          trace := trace w @ [G_OBJECT_NEW ty name tgt]\<rparr>)"

subsection \<open>The type-masking dispatcher\<close>

text \<open>
  \<open>gstd_property_mask_type\<close>. The two \<open>g_return_val_if_fail\<close> guards log a critical
  message and return \<open>NULL\<close>. The descriptor is looked up again and dereferenced with no
  check: a missing descriptor is a fault. The cases follow the \<open>switch\<close>, in its order;
  the string case instantiates \<open>GSTD_TYPE_PROPERTY_INT\<close>, as the source does. The
  wrapper is named \<open>pspec->name\<close>, the diagnostic of the default case carries the name
  that was asked for.
\<close>

definition gstd_property_mask_type :: "addr option \<Rightarrow> string option \<Rightarrow> world \<Rightarrow> addr option outcome" where
  "gstd_property_mask_type object name w =
     (case object of
        None \<Rightarrow> Return None (emit (G_CRITICAL ''gstd_property_mask_type'' ''object'') w)
      | Some obj \<Rightarrow>
     (case name of
        None \<Rightarrow> Return None (emit (G_CRITICAL ''gstd_property_mask_type'' ''name'') w)
      | Some nm \<Rightarrow>
     (case deref w obj of
        None \<Rightarrow> Fault
      | Some ob \<Rightarrow>
          let w1 = emit (G_OBJECT_CLASS_FIND_PROPERTY obj nm) w in
          (case g_object_class_find_property (g_class ob) nm of
             None \<Rightarrow> Fault
           | Some pspec \<Rightarrow>
               (case pspec_value_type pspec of
                  G_TYPE_BOOLEAN \<Rightarrow> g_object_new GSTD_TYPE_PROPERTY_BOOLEAN (pspec_name pspec) obj w1
                | G_TYPE_INT \<Rightarrow> g_object_new GSTD_TYPE_PROPERTY_INT (pspec_name pspec) obj w1
                | G_TYPE_UINT \<Rightarrow> g_object_new GSTD_TYPE_PROPERTY_INT (pspec_name pspec) obj w1
                | G_TYPE_UINT64 \<Rightarrow> g_object_new GSTD_TYPE_PROPERTY_INT (pspec_name pspec) obj w1
                | G_TYPE_INT64 \<Rightarrow> g_object_new GSTD_TYPE_PROPERTY_INT (pspec_name pspec) obj w1
                | G_TYPE_STRING \<Rightarrow> g_object_new GSTD_TYPE_PROPERTY_INT (pspec_name pspec) obj w1
                | _ \<Rightarrow> Return None
                         (emit (GST_ERROR_OBJECT obj ''%s is not a valid resource'' [nm]) w1))))))"

subsection \<open>The reader\<close>

text \<open>
  \<open>gstd_property_reader_read\<close>. \<open>GSTD_PARAM_IS_READ\<close> is a macro of gstd\_object.h,
  which is not among the sources: the test it makes on the flags is a parameter of the model.
  The second parameter is what the stack left in the variable \<open>resource\<close>.
  \<open>g_object_get\<close> resolves the name as the lookup does, so the value it copies out is
  that of the descriptor found.
\<close>

definition gstd_property_reader_read ::
  "(32 word \<Rightarrow> bool) \<Rightarrow> 32 word \<Rightarrow> addr option \<Rightarrow> addr option \<Rightarrow> string option \<Rightarrow> world
     \<Rightarrow> addr option outcome" where
  "gstd_property_reader_read GSTD_PARAM_IS_READ residue iface object name w =
     (case iface of
        None \<Rightarrow> Return None (emit (G_CRITICAL ''gstd_property_reader_read'' ''iface'') w)
      | Some ifc \<Rightarrow>
     (case object of
        None \<Rightarrow> Return None (emit (G_CRITICAL ''gstd_property_reader_read'' ''object'') w)
      | Some obj \<Rightarrow>
     (case name of
        None \<Rightarrow> Return None (emit (G_CRITICAL ''gstd_property_reader_read'' ''name'') w)
      | Some nm \<Rightarrow>
     (case deref w obj of
        None \<Rightarrow> Fault
      | Some ob \<Rightarrow>
          let w1 = emit (G_OBJECT_CLASS_FIND_PROPERTY obj nm) w in
          (case g_object_class_find_property (g_class ob) nm of
             None \<Rightarrow>
               Return None
                 (emit (GST_ERROR_OBJECT ifc ''No %s resource in %s'' [nm, GSTD_OBJECT_NAME ob]) w1)
           | Some pspec \<Rightarrow>
               if \<not> GSTD_PARAM_IS_READ (pspec_flags pspec)
                  \<or> \<not> (pspec_flags pspec AND G_PARAM_READABLE \<noteq> 0)
               then Return None
                      (emit (GST_ERROR_OBJECT ifc ''The resource %s is not readable'' [nm]) w1)
               else
                 let resource = g_object_get residue (g_props ob (pspec_name pspec));
                     w2 = emit (G_OBJECT_GET obj nm) w1
                 in (case GSTD_IS_OBJECT w2 resource of
                       None \<Rightarrow> Fault
                     | Some False \<Rightarrow> gstd_property_mask_type object name w2
                     | Some True \<Rightarrow>
                         (case resource of
                            ObjectPtr r \<Rightarrow> Return (Some r) w2
                          | _ \<Rightarrow> Fault)))))))"

subsection \<open>What the trace says about the live object\<close>

text \<open>The invocations of a property getter among the events of a trace.\<close>

fun is_getter_call :: "event \<Rightarrow> bool" where
  "is_getter_call (G_OBJECT_GET a n) = True"
| "is_getter_call _ = False"

definition getter_calls :: "event list \<Rightarrow> event list" where
  "getter_calls es = filter is_getter_call es"

subsection \<open>An element to run the reader on\<close>

text \<open>
  For the examples the resource-layer flag is bit 9 of the flags, a bit above
  \<open>G_PARAM_USER_SHIFT\<close>; natively readable is bit 0, natively writable bit 1.
\<close>

definition example_is_read :: "32 word \<Rightarrow> bool" where
  "example_is_read f = (f AND 512 \<noteq> 0)"

text \<open>
  The element \<open>e1\<close>. Readable: the boolean \<open>mute\<close> (\<open>FALSE\<close>), the 64-bit
  integers \<open>latency-ns\<close> (1200) and \<open>start-time\<close> (0), the strings \<open>name\<close>
  (\<open>src0\<close>) and \<open>uri\<close> (\<open>NULL\<close>), the double \<open>volume\<close> (1.0, by its bits),
  \<open>properties\<close>, which holds a pointer to the gstd list at address 1, and \<open>clock\<close>,
  which holds a pointer to the object at address 2, a clock that is no gstd object.
  \<open>secret\<close> is not readable natively; \<open>hidden\<close> is not readable at the resource
  layer.
\<close>

definition e1_class :: "GParamSpec list" where
  "e1_class =
    [\<lparr>pspec_name = ''mute'', pspec_flags = 515, pspec_value_type = G_TYPE_BOOLEAN\<rparr>,
     \<lparr>pspec_name = ''latency-ns'', pspec_flags = 513, pspec_value_type = G_TYPE_INT64\<rparr>,
     \<lparr>pspec_name = ''start-time'', pspec_flags = 513, pspec_value_type = G_TYPE_INT64\<rparr>,
     \<lparr>pspec_name = ''name'', pspec_flags = 515, pspec_value_type = G_TYPE_STRING\<rparr>,
     \<lparr>pspec_name = ''uri'', pspec_flags = 515, pspec_value_type = G_TYPE_STRING\<rparr>,
     \<lparr>pspec_name = ''volume'', pspec_flags = 515, pspec_value_type = G_TYPE_DOUBLE\<rparr>,
     \<lparr>pspec_name = ''secret'', pspec_flags = 514, pspec_value_type = G_TYPE_BOOLEAN\<rparr>,
     \<lparr>pspec_name = ''hidden'', pspec_flags = 3, pspec_value_type = G_TYPE_INT\<rparr>,
     \<lparr>pspec_name = ''properties'', pspec_flags = 513, pspec_value_type = GSTD_TYPE ''GstdList''\<rparr>,
     \<lparr>pspec_name = ''clock'', pspec_flags = 513,
      pspec_value_type = G_TYPE_REGISTERED ''GstClock''\<rparr>]"

definition e1_props :: "string \<Rightarrow> GValue" where
  "e1_props n =
     (if n = ''mute'' then VBoolean False
      else if n = ''latency-ns'' then VInt64 1200
      else if n = ''start-time'' then VInt64 0
      else if n = ''name'' then VString (Some ''src0'')
      else if n = ''uri'' then VString None
      else if n = ''volume'' then VDouble 4607182418800017408
      else if n = ''secret'' then VBoolean True
      else if n = ''hidden'' then VInt 7
      else if n = ''properties'' then VObject (Some 1)
      else if n = ''clock'' then VObject (Some 2)
      else VObject None)"

definition e1 :: GObject where
  "e1 = \<lparr>g_type = GSTD_TYPE ''GstdElement'', GSTD_OBJECT_NAME = ''e1'', g_class = e1_class,
          g_props = e1_props, target = None\<rparr>"

definition list0 :: GObject where
  "list0 = \<lparr>g_type = GSTD_TYPE ''GstdList'', GSTD_OBJECT_NAME = ''list0'', g_class = [],
             g_props = (\<lambda>_. VObject None), target = None\<rparr>"

definition clock0 :: GObject where
  "clock0 = \<lparr>g_type = G_TYPE_REGISTERED ''GstClock'', GSTD_OBJECT_NAME = [], g_class = [],
              g_props = (\<lambda>_. VObject None), target = None\<rparr>"

definition w0 :: world where
  "w0 = \<lparr>heap = [e1, list0, clock0], trace = []\<rparr>"

section \<open>Properties\<close>

subsection \<open>Auxiliary facts\<close>

lemma heap_emit [simp]: "heap (emit e w) = heap w"
  by (simp add: emit_def)

lemma trace_emit [simp]: "trace (emit e w) = trace w @ [e]"
  by (simp add: emit_def)

lemma deref_emit [simp]: "deref (emit e w) a = deref w a"
  by (simp add: deref_def)

lemma GSTD_IS_OBJECT_emit [simp]: "GSTD_IS_OBJECT (emit e w) p = GSTD_IS_OBJECT w p"
  by (cases p) simp_all

text \<open>The lookup: what it finds, and when it finds nothing.\<close>

lemma find_property_Some:
  assumes "g_object_class_find_property klass nm = Some pspec"
  shows "pspec \<in> set klass \<and> (pspec_name pspec = nm \<or> pspec_name pspec = canonicalize_key nm)"
  using assms
  by (auto simp: g_object_class_find_property_def find_Some_iff split: option.splits)

lemma find_property_declared:
  assumes "nm \<in> pspec_name ` set klass"
  shows "\<exists>pspec. g_object_class_find_property klass nm = Some pspec \<and> pspec_name pspec = nm"
proof (cases "find (\<lambda>p. pspec_name p = nm) klass")
  case None
  with assms show ?thesis
    by (auto simp: find_None_iff)
next
  case (Some p)
  then have "pspec_name p = nm"
    by (auto simp: find_Some_iff)
  with Some show ?thesis
    by (simp add: g_object_class_find_property_def)
qed



text \<open>The instance check: when it answers, and what lets it answer.\<close>

lemma instance_check_no_iff:
  "GSTD_IS_OBJECT w p = Some False \<longleftrightarrow>
     p = NullPtr
     \<or> (\<exists>a c. p = ObjectPtr a \<and> deref w a = Some c \<and> \<not> g_type_is_a_gstd_object (g_type c))"
  by (cases p) (auto split: option.splits)

lemma instance_check_yes_iff:
  "GSTD_IS_OBJECT w p = Some True \<longleftrightarrow>
     (\<exists>a c. p = ObjectPtr a \<and> deref w a = Some c \<and> g_type_is_a_gstd_object (g_type c))"
  by (cases p) (auto split: option.splits)

text \<open>
  A value that is no object pointer passes the check only as eight zero bytes: \<open>FALSE\<close>
  or the number zero over a zero residue, a 64-bit zero, a \<open>NULL\<close> string or a
  \<open>NULL\<close> boxed pointer. Every other such value makes the check fault.
\<close>

lemma instance_check_plain_value:
  assumes "\<forall>r. v \<noteq> VObject r"
  shows "GSTD_IS_OBJECT w (g_object_get residue v) =
           (if v \<in> {VInt64 0, VDouble 0, VString None, VBoxed False}
               \<or> (residue = 0 \<and> v \<in> {VBoolean False, VInt 0, VFloat 0})
            then Some False else None)"
  using assms by (cases "(residue, v)" rule: g_object_get.cases) auto

text \<open>
  The reader on a live object with a descriptor that passes both permission checks: the
  getter is called, and the instance check on what the variable then holds decides between
  a fault, the dispatcher and the fetched object.
\<close>

lemma read_readable:
  assumes "deref w obj = Some ob"
    and "g_object_class_find_property (g_class ob) nm = Some pspec"
    and "is_read (pspec_flags pspec)"
    and "pspec_flags pspec AND G_PARAM_READABLE \<noteq> 0"
  shows "gstd_property_reader_read is_read residue (Some ifc) (Some obj) (Some nm) w =
           (case GSTD_IS_OBJECT w (g_object_get residue (g_props ob (pspec_name pspec))) of
              None \<Rightarrow> Fault
            | Some False \<Rightarrow>
                gstd_property_mask_type (Some obj) (Some nm)
                  (emit (G_OBJECT_GET obj nm) (emit (G_OBJECT_CLASS_FIND_PROPERTY obj nm) w))
            | Some True \<Rightarrow>
                (case g_object_get residue (g_props ob (pspec_name pspec)) of
                   ObjectPtr r \<Rightarrow>
                     Return (Some r)
                       (emit (G_OBJECT_GET obj nm) (emit (G_OBJECT_CLASS_FIND_PROPERTY obj nm) w))
                 | _ \<Rightarrow> Fault))"
  using assms by (simp add: gstd_property_reader_read_def Let_def)

text \<open>The dispatcher on a live object with a descriptor: the switch on the value type.\<close>

lemma mask_type_wraps:
  assumes "deref w obj = Some ob"
    and "g_object_class_find_property (g_class ob) nm = Some pspec"
    and "pspec_value_type pspec = ty"
    and "ty \<in> {G_TYPE_BOOLEAN, G_TYPE_INT, G_TYPE_UINT, G_TYPE_INT64, G_TYPE_UINT64, G_TYPE_STRING}"
  shows "gstd_property_mask_type (Some obj) (Some nm) w =
           Return (Some (length (heap w)))
             (w\<lparr>heap := heap w @
                   [\<lparr>g_type = (if ty = G_TYPE_BOOLEAN then GSTD_TYPE_PROPERTY_BOOLEAN
                               else GSTD_TYPE_PROPERTY_INT),
                     GSTD_OBJECT_NAME = pspec_name pspec, g_class = [],
                     g_props = (\<lambda>_. VObject None), target = Some obj\<rparr>],
                trace := trace w @
                   [G_OBJECT_CLASS_FIND_PROPERTY obj nm,
                    G_OBJECT_NEW (if ty = G_TYPE_BOOLEAN then GSTD_TYPE_PROPERTY_BOOLEAN
                                  else GSTD_TYPE_PROPERTY_INT) (pspec_name pspec) obj]\<rparr>)"
  using assms
  by (auto simp: gstd_property_mask_type_def g_object_new_def emit_def Let_def)

lemma mask_type_unsupported:
  assumes "deref w obj = Some ob"
    and "g_object_class_find_property (g_class ob) nm = Some pspec"
    and "pspec_value_type pspec \<notin>
           {G_TYPE_BOOLEAN, G_TYPE_INT, G_TYPE_UINT, G_TYPE_INT64, G_TYPE_UINT64, G_TYPE_STRING}"
  shows "gstd_property_mask_type (Some obj) (Some nm) w =
           Return None
             (w\<lparr>trace := trace w @
                   [G_OBJECT_CLASS_FIND_PROPERTY obj nm,
                    GST_ERROR_OBJECT obj ''%s is not a valid resource'' [nm]]\<rparr>)"
  using assms
  by (cases "pspec_value_type pspec")
     (simp_all add: gstd_property_mask_type_def emit_def Let_def)

text \<open>Called on a name the lookup does not resolve, the dispatcher dereferences \<open>NULL\<close>.\<close>

lemma mask_type_faults_without_descriptor:
  assumes "deref w obj = Some ob"
    and "g_object_class_find_property (g_class ob) nm = None"
  shows "gstd_property_mask_type (Some obj) (Some nm) w = Fault"
  using assms by (simp add: gstd_property_mask_type_def Let_def)

lemma mask_type_Return_Some:
  assumes "gstd_property_mask_type (Some obj) (Some nm) w = Return (Some r) w'"
  shows "\<exists>ob pspec ty. deref w obj = Some ob
           \<and> g_object_class_find_property (g_class ob) nm = Some pspec
           \<and> r = length (heap w)
           \<and> w' = w\<lparr>heap := heap w @
                    [\<lparr>g_type = ty, GSTD_OBJECT_NAME = pspec_name pspec, g_class = [],
                      g_props = (\<lambda>_. VObject None), target = Some obj\<rparr>],
                  trace := trace w @
                    [G_OBJECT_CLASS_FIND_PROPERTY obj nm, G_OBJECT_NEW ty (pspec_name pspec) obj]\<rparr>"
proof -
  from assms obtain ob pspec where ob: "deref w obj = Some ob"
    and ps: "g_object_class_find_property (g_class ob) nm = Some pspec"
    by (auto simp: gstd_property_mask_type_def Let_def split: option.splits)
  show ?thesis
  proof (cases "pspec_value_type pspec \<in>
      {G_TYPE_BOOLEAN, G_TYPE_INT, G_TYPE_UINT, G_TYPE_INT64, G_TYPE_UINT64, G_TYPE_STRING}")
    case True
    from mask_type_wraps [OF ob ps refl True] assms ob ps show ?thesis by auto
  next
    case False
    from mask_type_unsupported [OF ob ps False] assms show ?thesis by simp
  qed
qed

lemma read_Return_Some:
  assumes "gstd_property_reader_read is_read residue iface object name w = Return (Some r) w'"
  obtains ifc obj nm ob pspec where "iface = Some ifc" "object = Some obj" "name = Some nm"
    "deref w obj = Some ob" "g_object_class_find_property (g_class ob) nm = Some pspec"
    "is_read (pspec_flags pspec)" "pspec_flags pspec AND G_PARAM_READABLE \<noteq> 0"
  using assms
  by (auto simp: gstd_property_reader_read_def Let_def split: option.splits if_splits)

lemmas example_defs = example_is_read_def e1_class_def e1_props_def e1_def list0_def clock0_def
  w0_def deref_def g_object_class_find_property_def canonicalize_key_def G_PARAM_READABLE_def

subsection \<open>When the reader wraps, and when it faults before it can\<close>

text \<open>
  The reader reaches the dispatcher only when the instance check answers no on what the
  variable holds. Then a property declared with one of the six value types the dispatcher
  knows is wrapped: a boolean property gets the boolean wrapper, the four integer types get
  the integer wrapper, and a string property gets the integer wrapper too.
\<close>

lemma read_wraps:
  assumes "deref w obj = Some ob"
    and "g_object_class_find_property (g_class ob) nm = Some pspec"
    and "is_read (pspec_flags pspec)"
    and "pspec_flags pspec AND G_PARAM_READABLE \<noteq> 0"
    and "GSTD_IS_OBJECT w (g_object_get residue (g_props ob (pspec_name pspec))) = Some False"
    and "pspec_value_type pspec \<in>
           {G_TYPE_BOOLEAN, G_TYPE_INT, G_TYPE_UINT, G_TYPE_INT64, G_TYPE_UINT64, G_TYPE_STRING}"
  shows "gstd_property_reader_read is_read residue (Some ifc) (Some obj) (Some nm) w =
           Return (Some (length (heap w)))
             (w\<lparr>heap := heap w @
                   [\<lparr>g_type = (if pspec_value_type pspec = G_TYPE_BOOLEAN
                               then GSTD_TYPE_PROPERTY_BOOLEAN else GSTD_TYPE_PROPERTY_INT),
                     GSTD_OBJECT_NAME = pspec_name pspec, g_class = [],
                     g_props = (\<lambda>_. VObject None), target = Some obj\<rparr>],
                trace := trace w @
                   [G_OBJECT_CLASS_FIND_PROPERTY obj nm, G_OBJECT_GET obj nm,
                    G_OBJECT_CLASS_FIND_PROPERTY obj nm,
                    G_OBJECT_NEW (if pspec_value_type pspec = G_TYPE_BOOLEAN
                                  then GSTD_TYPE_PROPERTY_BOOLEAN else GSTD_TYPE_PROPERTY_INT)
                      (pspec_name pspec) obj]\<rparr>)"
proof -
  let ?w2 = "emit (G_OBJECT_GET obj nm) (emit (G_OBJECT_CLASS_FIND_PROPERTY obj nm) w)"
  have live2: "deref ?w2 obj = Some ob"
    using assms(1) by simp
  have "gstd_property_reader_read is_read residue (Some ifc) (Some obj) (Some nm) w =
          gstd_property_mask_type (Some obj) (Some nm) ?w2"
    using read_readable [where is_read = is_read and ifc = ifc and residue = residue,
        OF assms(1-4)] assms(5)
    by simp
  also note mask_type_wraps [OF live2 assms(2) refl assms(6)]
  finally show ?thesis
    by (simp add: emit_def)
qed

text \<open>
  When the variable holds bits that lead to no object, the instance check faults and the
  reader returns nothing: so for \<open>TRUE\<close>, for a number that is not zero, for a string
  that is not \<open>NULL\<close>, and for \<open>FALSE\<close> or a 32-bit zero over a residue that is not
  zero.
\<close>

lemma read_faults_in_instance_check:
  assumes "deref w obj = Some ob"
    and "g_object_class_find_property (g_class ob) nm = Some pspec"
    and "is_read (pspec_flags pspec)"
    and "pspec_flags pspec AND G_PARAM_READABLE \<noteq> 0"
    and "GSTD_IS_OBJECT w (g_object_get residue (g_props ob (pspec_name pspec))) = None"
  shows "gstd_property_reader_read is_read residue (Some ifc) (Some obj) (Some nm) w = Fault"
  using read_readable [where is_read = is_read and ifc = ifc and residue = residue,
      OF assms(1-4)] assms(5)
  by simp

lemma read_e1_name_faults:
  "gstd_property_reader_read example_is_read residue (Some 7) (Some 0) (Some ''name'') w0 = Fault"
  by (simp add: example_defs gstd_property_reader_read_def emit_def)

lemma read_e1_latency_faults:
  "gstd_property_reader_read example_is_read residue (Some 7) (Some 0) (Some ''latency-ns'') w0
     = Fault"
  by (simp add: example_defs gstd_property_reader_read_def emit_def)

lemma read_e1_mute_over_residue_faults:
  "residue \<noteq> 0 \<Longrightarrow>
     gstd_property_reader_read example_is_read residue (Some 7) (Some 0) (Some ''mute'') w0 = Fault"
  by (simp add: example_defs gstd_property_reader_read_def emit_def)

lemma read_e1_mute_over_zero_wraps:
  "gstd_property_reader_read example_is_read 0 (Some 7) (Some 0) (Some ''mute'') w0 =
     Return (Some 3)
       \<lparr>heap = [e1, list0, clock0,
                \<lparr>g_type = GSTD_TYPE_PROPERTY_BOOLEAN, GSTD_OBJECT_NAME = ''mute'', g_class = [],
                 g_props = (\<lambda>_. VObject None), target = Some 0\<rparr>],
        trace = [G_OBJECT_CLASS_FIND_PROPERTY 0 ''mute'', G_OBJECT_GET 0 ''mute'',
                 G_OBJECT_CLASS_FIND_PROPERTY 0 ''mute'',
                 G_OBJECT_NEW GSTD_TYPE_PROPERTY_BOOLEAN ''mute'' 0]\<rparr>"
  by (simp add: example_defs gstd_property_reader_read_def gstd_property_mask_type_def
      g_object_new_def emit_def)

text \<open>
  The dispatcher alone, on the string property \<open>name\<close> of \<open>e1\<close>: the wrapper it
  builds has the integer type.
\<close>

lemma mask_type_e1_name_builds_int:
  "gstd_property_mask_type (Some 0) (Some ''name'') w0 =
     Return (Some 3)
       \<lparr>heap = [e1, list0, clock0,
                \<lparr>g_type = GSTD_TYPE_PROPERTY_INT, GSTD_OBJECT_NAME = ''name'', g_class = [],
                 g_props = (\<lambda>_. VObject None), target = Some 0\<rparr>],
        trace = [G_OBJECT_CLASS_FIND_PROPERTY 0 ''name'',
                 G_OBJECT_NEW GSTD_TYPE_PROPERTY_INT ''name'' 0]\<rparr>"
  by (simp add: example_defs gstd_property_mask_type_def g_object_new_def emit_def)

text \<open>
  C1. For a readable boolean, integer or string property of a live object, the reader is to
  return a typed property of the matching variant, named after the property. On the string
  property \<open>uri\<close> of \<open>e1\<close>, whose value is \<open>NULL\<close>, the reader reaches the
  dispatcher whatever the stack left in the variable, and the object it returns has the type
  \<open>GSTD_TYPE_PROPERTY_INT\<close>, not \<open>GSTD_TYPE_PROPERTY_STRING\<close>: the string case of
  the switch declares its result as a \<open>GstdPropertyString *\<close> and instantiates the
  integer type.
\<close>

theorem read_null_string_wrapped_as_int:
  "gstd_property_reader_read example_is_read residue (Some 7) (Some 0) (Some ''uri'') w0 =
     Return (Some 3)
       \<lparr>heap = [e1, list0, clock0,
                \<lparr>g_type = GSTD_TYPE_PROPERTY_INT, GSTD_OBJECT_NAME = ''uri'', g_class = [],
                 g_props = (\<lambda>_. VObject None), target = Some 0\<rparr>],
        trace = [G_OBJECT_CLASS_FIND_PROPERTY 0 ''uri'', G_OBJECT_GET 0 ''uri'',
                 G_OBJECT_CLASS_FIND_PROPERTY 0 ''uri'',
                 G_OBJECT_NEW GSTD_TYPE_PROPERTY_INT ''uri'' 0]\<rparr>"
  by (simp add: example_defs gstd_property_reader_read_def gstd_property_mask_type_def
      g_object_new_def emit_def)

text \<open>Read off the heap the call leaves: the object returned has the integer type.\<close>

theorem read_null_string_wrapped_as_int_witness:
  "\<exists>w'. gstd_property_reader_read example_is_read 3735928559 (Some 7) (Some 0) (Some ''uri'') w0 =
          Return (Some 3) w'
        \<and> map_option g_type (deref w' 3) = Some GSTD_TYPE_PROPERTY_INT
        \<and> map_option g_type (deref w' 3) \<noteq> Some GSTD_TYPE_PROPERTY_STRING"
  using read_null_string_wrapped_as_int [of 3735928559]
  by (simp add: deref_def)

subsection \<open>Failures of the reader\<close>

text \<open>
  C2. A property that exists but may not be read, because the resource-layer flag is not
  set, because the native \<open>G_PARAM_READABLE\<close> flag is not set, or both: the reader returns
  \<open>NULL\<close> and logs that the resource is not readable. The world it leaves differs from
  the one it found by two events only, the lookup and the diagnostic: the heap is the same,
  so no typed property was built, and the getter was not called.
\<close>

theorem read_not_readable:
  assumes "deref w obj = Some ob"
    and "g_object_class_find_property (g_class ob) nm = Some pspec"
    and "\<not> is_read (pspec_flags pspec) \<or> pspec_flags pspec AND G_PARAM_READABLE = 0"
  shows "gstd_property_reader_read is_read residue (Some ifc) (Some obj) (Some nm) w =
           Return None
             (w\<lparr>trace := trace w @
                   [G_OBJECT_CLASS_FIND_PROPERTY obj nm,
                    GST_ERROR_OBJECT ifc ''The resource %s is not readable'' [nm]]\<rparr>)"
  using assms by (auto simp: gstd_property_reader_read_def Let_def emit_def)

theorem read_not_readable_witness:
  "deref w0 0 = Some e1
   \<and> g_object_class_find_property (g_class e1) ''hidden'' =
       Some \<lparr>pspec_name = ''hidden'', pspec_flags = 3, pspec_value_type = G_TYPE_INT\<rparr>
   \<and> \<not> example_is_read 3
   \<and> (3 :: 32 word) AND G_PARAM_READABLE \<noteq> 0
   \<and> gstd_property_reader_read example_is_read 0 (Some 7) (Some 0) (Some ''hidden'') w0 =
       Return None
         (w0\<lparr>trace := trace w0 @
                [G_OBJECT_CLASS_FIND_PROPERTY 0 ''hidden'',
                 GST_ERROR_OBJECT 7 ''The resource %s is not readable'' [''hidden'']]\<rparr>)"
proof -
  let ?p = "\<lparr>pspec_name = ''hidden'', pspec_flags = 3, pspec_value_type = G_TYPE_INT\<rparr>"
  have live: "deref w0 0 = Some e1"
    by (simp add: example_defs)
  have found: "g_object_class_find_property (g_class e1) ''hidden'' = Some ?p"
    by (simp add: example_defs)
  have denied: "\<not> example_is_read 3" and native: "(3 :: 32 word) AND G_PARAM_READABLE \<noteq> 0"
    by (simp_all add: example_defs)
  from denied have
    "\<not> example_is_read (pspec_flags ?p) \<or> pspec_flags ?p AND G_PARAM_READABLE = 0"
    by simp
  from read_not_readable [where is_read = example_is_read and ifc = 7 and residue = 0,
      OF live found this]
    live found denied native
  show ?thesis by simp
qed




text \<open>
  C4. For a readable property whose declared type is none of boolean, the four integer types
  and string, the reader is specified to fail with a diagnostic that names the resource and
  the property, and never to crash. What it does when the instance check answers no on the
  fetched value (eight zero bytes, or a pointer to an object that is no gstd object): it
  returns \<open>NULL\<close> and the dispatcher logs \<open>%s is not a valid resource\<close>. The
  diagnostic is logged against the resource, which is the object argument of
  \<open>GST_ERROR_OBJECT\<close>; its text carries one argument, the name that was asked for. The
  heap is as it was.
\<close>

theorem read_unsupported_type:
  assumes "deref w obj = Some ob"
    and "g_object_class_find_property (g_class ob) nm = Some pspec"
    and "is_read (pspec_flags pspec)"
    and "pspec_flags pspec AND G_PARAM_READABLE \<noteq> 0"
    and "GSTD_IS_OBJECT w (g_object_get residue (g_props ob (pspec_name pspec))) = Some False"
    and "pspec_value_type pspec \<notin>
           {G_TYPE_BOOLEAN, G_TYPE_INT, G_TYPE_UINT, G_TYPE_INT64, G_TYPE_UINT64, G_TYPE_STRING}"
  shows "gstd_property_reader_read is_read residue (Some ifc) (Some obj) (Some nm) w =
           Return None
             (w\<lparr>trace := trace w @
                   [G_OBJECT_CLASS_FIND_PROPERTY obj nm, G_OBJECT_GET obj nm,
                    G_OBJECT_CLASS_FIND_PROPERTY obj nm,
                    GST_ERROR_OBJECT obj ''%s is not a valid resource'' [nm]]\<rparr>)"
proof -
  let ?w2 = "emit (G_OBJECT_GET obj nm) (emit (G_OBJECT_CLASS_FIND_PROPERTY obj nm) w)"
  have live2: "deref ?w2 obj = Some ob"
    using assms(1) by simp
  have "gstd_property_reader_read is_read residue (Some ifc) (Some obj) (Some nm) w =
          gstd_property_mask_type (Some obj) (Some nm) ?w2"
    using read_readable [where is_read = is_read and ifc = ifc and residue = residue,
        OF assms(1-4)] assms(5)
    by simp
  also note mask_type_unsupported [OF live2 assms(2) assms(6)]
  finally show ?thesis
    by (simp add: emit_def)
qed

theorem read_unsupported_type_witness:
  "deref w0 0 = Some e1
   \<and> g_object_class_find_property (g_class e1) ''clock'' =
       Some \<lparr>pspec_name = ''clock'', pspec_flags = 513,
             pspec_value_type = G_TYPE_REGISTERED ''GstClock''\<rparr>
   \<and> example_is_read 513
   \<and> (513 :: 32 word) AND G_PARAM_READABLE \<noteq> 0
   \<and> GSTD_IS_OBJECT w0 (g_object_get 3735928559 (g_props e1 ''clock'')) = Some False
   \<and> gstd_property_reader_read example_is_read 3735928559 (Some 7) (Some 0) (Some ''clock'') w0 =
       Return None
         (w0\<lparr>trace := trace w0 @
                [G_OBJECT_CLASS_FIND_PROPERTY 0 ''clock'', G_OBJECT_GET 0 ''clock'',
                 G_OBJECT_CLASS_FIND_PROPERTY 0 ''clock'',
                 GST_ERROR_OBJECT 0 ''%s is not a valid resource'' [''clock'']]\<rparr>)"
proof -
  let ?p = "\<lparr>pspec_name = ''clock'', pspec_flags = 513,
             pspec_value_type = G_TYPE_REGISTERED ''GstClock''\<rparr>"
  have live: "deref w0 0 = Some e1"
    by (simp add: example_defs)
  have found: "g_object_class_find_property (g_class e1) ''clock'' = Some ?p"
    by (simp add: example_defs)
  have overlay: "example_is_read (pspec_flags ?p)"
    and native: "pspec_flags ?p AND G_PARAM_READABLE \<noteq> 0"
    by (simp_all add: example_defs)
  have passed: "GSTD_IS_OBJECT w0 (g_object_get 3735928559 (g_props e1 (pspec_name ?p))) =
      Some False"
    by (simp add: example_defs)
  have other: "pspec_value_type ?p \<notin>
      {G_TYPE_BOOLEAN, G_TYPE_INT, G_TYPE_UINT, G_TYPE_INT64, G_TYPE_UINT64, G_TYPE_STRING}"
    by simp
  from read_unsupported_type [where is_read = example_is_read and ifc = 7
      and residue = 3735928559, OF live found overlay native passed other]
    live found overlay native passed
  show ?thesis by simp
qed

text \<open>
  Three reads of \<open>e1\<close>, each of a readable property declared with a type that is none
  of the six. The double \<open>volume\<close> holds 1.0: the instance check follows its bits and
  the reader faults. The \<open>clock\<close> is refused with a diagnostic whose only argument is
  \<open>clock\<close>; the name of the resource, \<open>e1\<close>, is not in it. \<open>properties\<close>
  holds a gstd object: it is returned, and nothing is refused.
\<close>

theorem read_unsupported_type_faults_or_omits_resource:
  "gstd_property_reader_read example_is_read 0 (Some 7) (Some 0) (Some ''volume'') w0 = Fault
   \<and> gstd_property_reader_read example_is_read 0 (Some 7) (Some 0) (Some ''clock'') w0 =
       Return None
         \<lparr>heap = [e1, list0, clock0],
          trace = [G_OBJECT_CLASS_FIND_PROPERTY 0 ''clock'', G_OBJECT_GET 0 ''clock'',
                   G_OBJECT_CLASS_FIND_PROPERTY 0 ''clock'',
                   GST_ERROR_OBJECT 0 ''%s is not a valid resource'' [''clock'']]\<rparr>
   \<and> GSTD_OBJECT_NAME e1 = ''e1''
   \<and> ''e1'' \<notin> set [''clock'']
   \<and> gstd_property_reader_read example_is_read 0 (Some 7) (Some 0) (Some ''properties'') w0 =
       Return (Some 1)
         \<lparr>heap = [e1, list0, clock0],
          trace = [G_OBJECT_CLASS_FIND_PROPERTY 0 ''properties'',
                   G_OBJECT_GET 0 ''properties'']\<rparr>"
  by (simp add: example_defs gstd_property_reader_read_def gstd_property_mask_type_def
      emit_def)

subsection \<open>A property that holds a resource\<close>

text \<open>
  C5. A readable property whose fetched value is a pointer to a gstd object: the reader
  returns that very pointer. The call adds the lookup and the getter call to the trace and
  nothing else: the dispatcher is not entered (it would look the descriptor up a second
  time) and no object is allocated.
\<close>

theorem read_returns_fetched_resource:
  assumes "deref w obj = Some ob"
    and "g_object_class_find_property (g_class ob) nm = Some pspec"
    and "is_read (pspec_flags pspec)"
    and "pspec_flags pspec AND G_PARAM_READABLE \<noteq> 0"
    and "g_props ob (pspec_name pspec) = VObject (Some r)"
    and "deref w r = Some c"
    and "g_type_is_a_gstd_object (g_type c)"
  shows "gstd_property_reader_read is_read residue (Some ifc) (Some obj) (Some nm) w =
           Return (Some r)
             (w\<lparr>trace := trace w @ [G_OBJECT_CLASS_FIND_PROPERTY obj nm, G_OBJECT_GET obj nm]\<rparr>)"
  using read_readable [where is_read = is_read and ifc = ifc and residue = residue,
      OF assms(1-4)] assms(5-7)
  by (simp add: emit_def)

theorem read_returns_fetched_resource_witness:
  "deref w0 0 = Some e1
   \<and> g_object_class_find_property (g_class e1) ''properties'' =
       Some \<lparr>pspec_name = ''properties'', pspec_flags = 513,
             pspec_value_type = GSTD_TYPE ''GstdList''\<rparr>
   \<and> example_is_read 513
   \<and> (513 :: 32 word) AND G_PARAM_READABLE \<noteq> 0
   \<and> g_props e1 ''properties'' = VObject (Some 1)
   \<and> deref w0 1 = Some list0
   \<and> g_type_is_a_gstd_object (g_type list0)
   \<and> gstd_property_reader_read example_is_read 3735928559 (Some 7) (Some 0)
         (Some ''properties'') w0 =
       Return (Some 1)
         (w0\<lparr>trace := trace w0 @
                [G_OBJECT_CLASS_FIND_PROPERTY 0 ''properties'', G_OBJECT_GET 0 ''properties'']\<rparr>)"
proof -
  let ?p = "\<lparr>pspec_name = ''properties'', pspec_flags = 513,
             pspec_value_type = GSTD_TYPE ''GstdList''\<rparr>"
  have live: "deref w0 0 = Some e1"
    by (simp add: example_defs)
  have found: "g_object_class_find_property (g_class e1) ''properties'' = Some ?p"
    by (simp add: example_defs)
  have overlay: "example_is_read (pspec_flags ?p)"
    and native: "pspec_flags ?p AND G_PARAM_READABLE \<noteq> 0"
    by (simp_all add: example_defs)
  have fetched: "g_props e1 (pspec_name ?p) = VObject (Some 1)"
    by (simp add: example_defs)
  have sub: "deref w0 1 = Some list0"
    by (simp add: example_defs)
  have gstd: "g_type_is_a_gstd_object (g_type list0)"
    by (simp add: example_defs)
  from read_returns_fetched_resource [where is_read = example_is_read and ifc = 7
      and residue = 3735928559, OF live found overlay native fetched sub gstd]
    live found overlay native fetched sub gstd
  show ?thesis by simp
qed

subsection \<open>The dispatcher on the integer types\<close>

text \<open>
  C6. For a property declared with any of the value types \<open>G_TYPE_INT\<close>,
  \<open>G_TYPE_UINT\<close>, \<open>G_TYPE_INT64\<close> and \<open>G_TYPE_UINT64\<close>, the dispatcher builds
  one and the same kind of wrapper, \<open>GSTD_TYPE_PROPERTY_INT\<close>, named after the property
  (which is the name asked for when that is spelled as declared) and pointing back at the
  resource.
\<close>

theorem mask_type_integer:
  assumes "deref w obj = Some ob"
    and "g_object_class_find_property (g_class ob) nm = Some pspec"
    and "pspec_value_type pspec \<in> {G_TYPE_INT, G_TYPE_UINT, G_TYPE_INT64, G_TYPE_UINT64}"
  shows "gstd_property_mask_type (Some obj) (Some nm) w =
           Return (Some (length (heap w)))
             (w\<lparr>heap := heap w @
                   [\<lparr>g_type = GSTD_TYPE_PROPERTY_INT, GSTD_OBJECT_NAME = pspec_name pspec,
                     g_class = [], g_props = (\<lambda>_. VObject None), target = Some obj\<rparr>],
                trace := trace w @
                   [G_OBJECT_CLASS_FIND_PROPERTY obj nm,
                    G_OBJECT_NEW GSTD_TYPE_PROPERTY_INT (pspec_name pspec) obj]\<rparr>)
         \<and> (nm \<in> pspec_name ` set (g_class ob) \<longrightarrow> pspec_name pspec = nm)"
proof -
  from assms(3) have known: "pspec_value_type pspec \<in>
      {G_TYPE_BOOLEAN, G_TYPE_INT, G_TYPE_UINT, G_TYPE_INT64, G_TYPE_UINT64, G_TYPE_STRING}"
    and "pspec_value_type pspec \<noteq> G_TYPE_BOOLEAN"
    by auto
  moreover have "nm \<in> pspec_name ` set (g_class ob) \<longrightarrow> pspec_name pspec = nm"
    using find_property_declared [of nm "g_class ob"] assms(2) by auto
  ultimately show ?thesis
    using mask_type_wraps [OF assms(1,2) refl known] by simp
qed

theorem mask_type_integer_witness:
  "deref w0 0 = Some e1
   \<and> g_object_class_find_property (g_class e1) ''latency-ns'' =
       Some \<lparr>pspec_name = ''latency-ns'', pspec_flags = 513, pspec_value_type = G_TYPE_INT64\<rparr>
   \<and> gstd_property_mask_type (Some 0) (Some ''latency-ns'') w0 =
       Return (Some 3)
         (w0\<lparr>heap := heap w0 @
                [\<lparr>g_type = GSTD_TYPE_PROPERTY_INT, GSTD_OBJECT_NAME = ''latency-ns'',
                  g_class = [], g_props = (\<lambda>_. VObject None), target = Some 0\<rparr>],
              trace := trace w0 @
                [G_OBJECT_CLASS_FIND_PROPERTY 0 ''latency-ns'',
                 G_OBJECT_NEW GSTD_TYPE_PROPERTY_INT ''latency-ns'' 0]\<rparr>)"
proof -
  let ?p = "\<lparr>pspec_name = ''latency-ns'', pspec_flags = 513, pspec_value_type = G_TYPE_INT64\<rparr>"
  have live: "deref w0 0 = Some e1"
    by (simp add: example_defs)
  have found: "g_object_class_find_property (g_class e1) ''latency-ns'' = Some ?p"
    by (simp add: example_defs)
  have int64: "pspec_value_type ?p \<in> {G_TYPE_INT, G_TYPE_UINT, G_TYPE_INT64, G_TYPE_UINT64}"
    by simp
  have "length (heap w0) = 3"
    by (simp add: w0_def)
  with mask_type_integer [OF live found int64] live found
  show ?thesis by simp
qed

subsection \<open>What a successful read leaves behind\<close>

text \<open>
  C7. A successful read is specified to return a resource named as the property that was
  asked for, and to leave the resource unchanged. For every read that returns a resource:
  either the heap is exactly as it was and the resource returned is the gstd object the
  property holds, under whatever name that object has; or the heap is as it was with exactly
  one object appended, the wrapper returned, which points back at the resource and is named
  as the descriptor the lookup found. That name is the name asked for whenever the name
  asked for is spelled as the class declares it. In both cases every object that existed,
  the resource among them, is unchanged.
\<close>

theorem read_success_name_and_frame:
  assumes "gstd_property_reader_read is_read residue iface object name w = Return (Some r) w'"
  shows "\<exists>obj nm ob pspec. object = Some obj \<and> name = Some nm \<and> deref w obj = Some ob
           \<and> g_object_class_find_property (g_class ob) nm = Some pspec
           \<and> (nm \<in> pspec_name ` set (g_class ob) \<longrightarrow> pspec_name pspec = nm)
           \<and> (heap w' = heap w
                \<and> g_object_get residue (g_props ob (pspec_name pspec)) = ObjectPtr r
              \<or> (\<exists>ty. r = length (heap w)
                    \<and> heap w' = heap w @
                        [\<lparr>g_type = ty, GSTD_OBJECT_NAME = pspec_name pspec, g_class = [],
                          g_props = (\<lambda>_. VObject None), target = Some obj\<rparr>]))"
proof -
  from assms obtain ifc obj nm ob pspec where args: "iface = Some ifc" "object = Some obj"
      "name = Some nm"
    and live: "deref w obj = Some ob"
    and found: "g_object_class_find_property (g_class ob) nm = Some pspec"
    and overlay: "is_read (pspec_flags pspec)"
    and native: "pspec_flags pspec AND G_PARAM_READABLE \<noteq> 0"
    by (rule read_Return_Some)
  let ?w2 = "emit (G_OBJECT_GET obj nm) (emit (G_OBJECT_CLASS_FIND_PROPERTY obj nm) w)"
  let ?fetched = "g_object_get residue (g_props ob (pspec_name pspec))"
  note unfolded = read_readable [where is_read = is_read and ifc = ifc and residue = residue,
      OF live found overlay native]
  have spelled: "nm \<in> pspec_name ` set (g_class ob) \<longrightarrow> pspec_name pspec = nm"
    using find_property_declared [of nm "g_class ob"] found by auto
  have "heap w' = heap w \<and> ?fetched = ObjectPtr r
      \<or> (\<exists>ty. r = length (heap w)
            \<and> heap w' = heap w @
                [\<lparr>g_type = ty, GSTD_OBJECT_NAME = pspec_name pspec, g_class = [],
                  g_props = (\<lambda>_. VObject None), target = Some obj\<rparr>])"
  proof (cases "GSTD_IS_OBJECT w ?fetched")
    case None
    with unfolded assms args show ?thesis by simp
  next
    case (Some b)
    show ?thesis
    proof (cases b)
      case True
      with Some unfolded assms args have "heap w' = heap w \<and> ?fetched = ObjectPtr r"
        by (auto split: pointer.splits)
      then show ?thesis ..
    next
      case False
      with Some unfolded assms args
      have "gstd_property_mask_type (Some obj) (Some nm) ?w2 = Return (Some r) w'"
        by simp
      from mask_type_Return_Some [OF this] live found
      have "\<exists>ty. r = length (heap w)
            \<and> heap w' = heap w @
                [\<lparr>g_type = ty, GSTD_OBJECT_NAME = pspec_name pspec, g_class = [],
                  g_props = (\<lambda>_. VObject None), target = Some obj\<rparr>]"
        by auto
      then show ?thesis ..
    qed
  qed
  with args live found spelled show ?thesis
    by blast
qed

theorem read_success_name_and_frame_witness:
  "gstd_property_reader_read example_is_read 3735928559 (Some 7) (Some 0) (Some ''start-time'') w0 =
     Return (Some 3)
       \<lparr>heap = [e1, list0, clock0,
                \<lparr>g_type = GSTD_TYPE_PROPERTY_INT, GSTD_OBJECT_NAME = ''start-time'', g_class = [],
                 g_props = (\<lambda>_. VObject None), target = Some 0\<rparr>],
        trace = [G_OBJECT_CLASS_FIND_PROPERTY 0 ''start-time'', G_OBJECT_GET 0 ''start-time'',
                 G_OBJECT_CLASS_FIND_PROPERTY 0 ''start-time'',
                 G_OBJECT_NEW GSTD_TYPE_PROPERTY_INT ''start-time'' 0]\<rparr>
   \<and> (\<exists>pspec. g_object_class_find_property (g_class e1) ''start-time'' = Some pspec
          \<and> pspec_name pspec = ''start-time''
          \<and> (\<exists>ty. (3 :: nat) = length (heap w0)
                \<and> [e1, list0, clock0,
                    \<lparr>g_type = GSTD_TYPE_PROPERTY_INT, GSTD_OBJECT_NAME = ''start-time'',
                     g_class = [], g_props = (\<lambda>_. VObject None), target = Some 0\<rparr>] =
                   heap w0 @
                     [\<lparr>g_type = ty, GSTD_OBJECT_NAME = pspec_name pspec, g_class = [],
                       g_props = (\<lambda>_. VObject None), target = Some 0\<rparr>]))"
proof -
  let ?w' = "\<lparr>heap = [e1, list0, clock0,
                \<lparr>g_type = GSTD_TYPE_PROPERTY_INT, GSTD_OBJECT_NAME = ''start-time'', g_class = [],
                 g_props = (\<lambda>_. VObject None), target = Some 0\<rparr>],
        trace = [G_OBJECT_CLASS_FIND_PROPERTY 0 ''start-time'', G_OBJECT_GET 0 ''start-time'',
                 G_OBJECT_CLASS_FIND_PROPERTY 0 ''start-time'',
                 G_OBJECT_NEW GSTD_TYPE_PROPERTY_INT ''start-time'' 0]\<rparr>"
  have run: "gstd_property_reader_read example_is_read 3735928559 (Some 7) (Some 0)
      (Some ''start-time'') w0 = Return (Some 3) ?w'"
    by (simp add: example_defs gstd_property_reader_read_def gstd_property_mask_type_def
        g_object_new_def emit_def)
  have live: "deref w0 0 = Some e1"
    by (simp add: example_defs)
  have declared: "''start-time'' \<in> pspec_name ` set (g_class e1)"
    by (simp add: example_defs)
  have grown: "heap ?w' \<noteq> heap w0"
    by (simp add: w0_def)
  from read_success_name_and_frame [OF run] live declared grown
  have "\<exists>pspec. g_object_class_find_property (g_class e1) ''start-time'' = Some pspec
          \<and> pspec_name pspec = ''start-time''
          \<and> (\<exists>ty. (3 :: nat) = length (heap w0)
                \<and> heap ?w' = heap w0 @
                     [\<lparr>g_type = ty, GSTD_OBJECT_NAME = pspec_name pspec, g_class = [],
                       g_props = (\<lambda>_. VObject None), target = Some 0\<rparr>])"
    by auto
  with run show ?thesis
    by simp
qed

text \<open>
  Two successful reads of \<open>e1\<close> that return a resource not named as asked. The property
  \<open>properties\<close> holds the gstd list at address 1, whose own name is \<open>list0\<close>. The
  name \<open>start_time\<close> resolves to the descriptor \<open>start-time\<close>, and the wrapper is
  named after the descriptor.
\<close>

theorem read_returns_resource_under_other_name:
  "gstd_property_reader_read example_is_read 0 (Some 7) (Some 0) (Some ''properties'') w0 =
     Return (Some 1)
       \<lparr>heap = [e1, list0, clock0],
        trace = [G_OBJECT_CLASS_FIND_PROPERTY 0 ''properties'', G_OBJECT_GET 0 ''properties'']\<rparr>
   \<and> GSTD_OBJECT_NAME ([e1, list0, clock0] ! 1) = ''list0''
   \<and> ''list0'' \<noteq> ''properties''
   \<and> gstd_property_reader_read example_is_read 0 (Some 7) (Some 0) (Some ''start_time'') w0 =
       Return (Some 3)
         \<lparr>heap = [e1, list0, clock0,
                  \<lparr>g_type = GSTD_TYPE_PROPERTY_INT, GSTD_OBJECT_NAME = ''start-time'',
                   g_class = [], g_props = (\<lambda>_. VObject None), target = Some 0\<rparr>],
          trace = [G_OBJECT_CLASS_FIND_PROPERTY 0 ''start_time'', G_OBJECT_GET 0 ''start_time'',
                   G_OBJECT_CLASS_FIND_PROPERTY 0 ''start_time'',
                   G_OBJECT_NEW GSTD_TYPE_PROPERTY_INT ''start-time'' 0]\<rparr>
   \<and> ''start-time'' \<noteq> ''start_time''"
  by (simp add: example_defs gstd_property_reader_read_def gstd_property_mask_type_def
      g_object_new_def emit_def)

subsection \<open>Absent arguments\<close>

text \<open>
  C8. When the reader interface, the resource or the property name is \<open>NULL\<close>, the
  reader returns \<open>NULL\<close> from the first \<open>g_return_val_if_fail\<close> that fails. The
  world it leaves differs by the critical message of that guard alone: the live object was
  neither looked at nor asked for a value, and the heap is unchanged.
\<close>

theorem read_null_input:
  assumes "iface = None \<or> object = None \<or> name = None"
  shows "gstd_property_reader_read is_read residue iface object name w =
           Return None
             (w\<lparr>trace := trace w @
                   [G_CRITICAL ''gstd_property_reader_read''
                      (if iface = None then ''iface''
                       else if object = None then ''object'' else ''name'')]\<rparr>)"
  using assms
  by (auto simp: gstd_property_reader_read_def emit_def split: option.splits)

theorem read_null_input_witness:
  "gstd_property_reader_read example_is_read 0 None (Some 0) (Some ''mute'') w0 =
     Return None (w0\<lparr>trace := trace w0 @ [G_CRITICAL ''gstd_property_reader_read'' ''iface'']\<rparr>)
   \<and> gstd_property_reader_read example_is_read 0 (Some 7) None (Some ''mute'') w0 =
       Return None (w0\<lparr>trace := trace w0 @ [G_CRITICAL ''gstd_property_reader_read'' ''object'']\<rparr>)
   \<and> gstd_property_reader_read example_is_read 0 (Some 7) (Some 0) None w0 =
       Return None (w0\<lparr>trace := trace w0 @ [G_CRITICAL ''gstd_property_reader_read'' ''name'']\<rparr>)"
  using read_null_input [of None "Some 0" "Some ''mute''" example_is_read 0 w0]
    read_null_input [of "Some 7" None "Some ''mute''" example_is_read 0 w0]
    read_null_input [of "Some 7" "Some 0" None example_is_read 0 w0]
  by simp

subsection \<open>The getter is called after the checks only\<close>

text \<open>
  C9. When the read fails because the lookup finds no descriptor for the name, or because
  one of the two read flags is not set, the events of the call contain no call of the
  property getter, and the heap is unchanged: the value of a missing or denied property is
  never fetched from the live object.
\<close>

theorem read_failure_calls_no_getter:
  assumes "deref w obj = Some ob"
    and "g_object_class_find_property (g_class ob) nm = None
         \<or> (\<exists>pspec. g_object_class_find_property (g_class ob) nm = Some pspec
               \<and> (\<not> is_read (pspec_flags pspec) \<or> pspec_flags pspec AND G_PARAM_READABLE = 0))"
  shows "\<exists>w' es. gstd_property_reader_read is_read residue (Some ifc) (Some obj) (Some nm) w =
             Return None w'
           \<and> heap w' = heap w
           \<and> trace w' = trace w @ es
           \<and> getter_calls es = []"
  using assms
  by (auto simp: gstd_property_reader_read_def Let_def emit_def getter_calls_def)

theorem read_failure_calls_no_getter_witness:
  "deref w0 0 = Some e1
   \<and> g_object_class_find_property (g_class e1) ''secret'' =
       Some \<lparr>pspec_name = ''secret'', pspec_flags = 514, pspec_value_type = G_TYPE_BOOLEAN\<rparr>
   \<and> (514 :: 32 word) AND G_PARAM_READABLE = 0
   \<and> g_object_class_find_property (g_class e1) ''volume-db'' = None
   \<and> (\<exists>w' es. gstd_property_reader_read example_is_read 0 (Some 7) (Some 0) (Some ''secret'') w0 =
          Return None w'
        \<and> heap w' = heap w0 \<and> trace w' = trace w0 @ es \<and> getter_calls es = [])
   \<and> (\<exists>w' es. gstd_property_reader_read example_is_read 0 (Some 7) (Some 0) (Some ''volume-db'') w0 =
          Return None w'
        \<and> heap w' = heap w0 \<and> trace w' = trace w0 @ es \<and> getter_calls es = [])"
proof -
  let ?p = "\<lparr>pspec_name = ''secret'', pspec_flags = 514, pspec_value_type = G_TYPE_BOOLEAN\<rparr>"
  have live: "deref w0 0 = Some e1"
    by (simp add: example_defs)
  have found: "g_object_class_find_property (g_class e1) ''secret'' = Some ?p"
    by (simp add: example_defs)
  have native: "(514 :: 32 word) AND G_PARAM_READABLE = 0"
    by (simp add: example_defs)
  have absent: "g_object_class_find_property (g_class e1) ''volume-db'' = None"
    by (simp add: example_defs)
  from found native
  have denied: "g_object_class_find_property (g_class e1) ''secret'' = None
      \<or> (\<exists>pspec. g_object_class_find_property (g_class e1) ''secret'' = Some pspec
            \<and> (\<not> example_is_read (pspec_flags pspec)
                 \<or> pspec_flags pspec AND G_PARAM_READABLE = 0))"
    by simp
  from absent
  have missing: "g_object_class_find_property (g_class e1) ''volume-db'' = None
      \<or> (\<exists>pspec. g_object_class_find_property (g_class e1) ''volume-db'' = Some pspec
            \<and> (\<not> example_is_read (pspec_flags pspec)
                 \<or> pspec_flags pspec AND G_PARAM_READABLE = 0))"
    by simp
  from read_failure_calls_no_getter [where is_read = example_is_read and ifc = 7
        and residue = 0, OF live denied]
    read_failure_calls_no_getter [where is_read = example_is_read and ifc = 7
        and residue = 0, OF live missing]
    live found native absent
  show ?thesis by simp
qed

text \<open>
  On the path that passes both checks the getter is called once, after the lookup, whatever
  the call then returns.
\<close>

lemma read_fetch_follows_lookup:
  assumes "deref w obj = Some ob"
    and "g_object_class_find_property (g_class ob) nm = Some pspec"
    and "is_read (pspec_flags pspec)"
    and "pspec_flags pspec AND G_PARAM_READABLE \<noteq> 0"
    and "gstd_property_reader_read is_read residue (Some ifc) (Some obj) (Some nm) w = Return r w'"
  shows "\<exists>es. trace w' = trace w @ [G_OBJECT_CLASS_FIND_PROPERTY obj nm, G_OBJECT_GET obj nm] @ es
           \<and> getter_calls es = []"
proof -
  let ?w2 = "emit (G_OBJECT_GET obj nm) (emit (G_OBJECT_CLASS_FIND_PROPERTY obj nm) w)"
  let ?fetched = "g_object_get residue (g_props ob (pspec_name pspec))"
  note unfolded = read_readable [where is_read = is_read and ifc = ifc and residue = residue,
      OF assms(1-4)]
  have live2: "deref ?w2 obj = Some ob"
    using assms(1) by simp
  show ?thesis
  proof (cases "GSTD_IS_OBJECT w ?fetched")
    case None
    with unfolded assms(5) show ?thesis by simp
  next
    case (Some b)
    show ?thesis
    proof (cases b)
      case True
      with Some unfolded assms(5) show ?thesis
        by (auto simp: emit_def getter_calls_def split: pointer.splits)
    next
      case False
      with Some unfolded assms(5)
      have run: "gstd_property_mask_type (Some obj) (Some nm) ?w2 = Return r w'"
        by simp
      show ?thesis
      proof (cases "pspec_value_type pspec \<in>
          {G_TYPE_BOOLEAN, G_TYPE_INT, G_TYPE_UINT, G_TYPE_INT64, G_TYPE_UINT64, G_TYPE_STRING}")
        case True
        from mask_type_wraps [OF live2 assms(2) refl True] run show ?thesis
          by (auto simp: emit_def getter_calls_def)
      next
        case False
        from mask_type_unsupported [OF live2 assms(2) False] run show ?thesis
          by (auto simp: emit_def getter_calls_def)
      qed
    qed
  qed
qed

subsection \<open>The second lookup in the dispatcher\<close>

text \<open>
  C10. The dispatcher looks the descriptor up again and dereferences the result unchecked
  (\<open>mask_type_faults_without_descriptor\<close> shows the fault when there is none). The
  reader calls it in one place only: after it found a descriptor for the same object and
  name, passed both permission checks and saw the instance check answer no on the fetched
  value. In the world \<open>w2\<close> of that call the object is the one the reader looked at, the
  second lookup yields the same descriptor, and the dispatcher does not fault.
\<close>

theorem mask_type_second_lookup_safe:
  assumes "deref w obj = Some ob"
    and "g_object_class_find_property (g_class ob) nm = Some pspec"
    and "is_read (pspec_flags pspec)"
    and "pspec_flags pspec AND G_PARAM_READABLE \<noteq> 0"
    and "GSTD_IS_OBJECT w (g_object_get residue (g_props ob (pspec_name pspec))) = Some False"
    and "w2 = emit (G_OBJECT_GET obj nm) (emit (G_OBJECT_CLASS_FIND_PROPERTY obj nm) w)"
  shows "gstd_property_reader_read is_read residue (Some ifc) (Some obj) (Some nm) w =
           gstd_property_mask_type (Some obj) (Some nm) w2
         \<and> map_option (\<lambda>c. g_object_class_find_property (g_class c) nm) (deref w2 obj) =
             Some (Some pspec)
         \<and> gstd_property_mask_type (Some obj) (Some nm) w2 \<noteq> Fault"
proof -
  have live2: "deref w2 obj = Some ob"
    using assms(1,6) by simp
  have called: "gstd_property_reader_read is_read residue (Some ifc) (Some obj) (Some nm) w =
      gstd_property_mask_type (Some obj) (Some nm) w2"
    using read_readable [where is_read = is_read and ifc = ifc and residue = residue,
        OF assms(1-4)] assms(5,6)
    by simp
  have same: "map_option (\<lambda>c. g_object_class_find_property (g_class c) nm) (deref w2 obj) =
      Some (Some pspec)"
    using live2 assms(2) by simp
  have "gstd_property_mask_type (Some obj) (Some nm) w2 \<noteq> Fault"
  proof (cases "pspec_value_type pspec \<in>
      {G_TYPE_BOOLEAN, G_TYPE_INT, G_TYPE_UINT, G_TYPE_INT64, G_TYPE_UINT64, G_TYPE_STRING}")
    case True
    from mask_type_wraps [OF live2 assms(2) refl True] show ?thesis by simp
  next
    case False
    from mask_type_unsupported [OF live2 assms(2) False] show ?thesis by simp
  qed
  with called same show ?thesis
    by simp
qed

theorem mask_type_second_lookup_safe_witness:
  "deref w0 0 = Some e1
   \<and> g_object_class_find_property (g_class e1) ''start_time'' =
       Some \<lparr>pspec_name = ''start-time'', pspec_flags = 513, pspec_value_type = G_TYPE_INT64\<rparr>
   \<and> example_is_read 513
   \<and> (513 :: 32 word) AND G_PARAM_READABLE \<noteq> 0
   \<and> GSTD_IS_OBJECT w0 (g_object_get 3735928559 (g_props e1 ''start-time'')) = Some False
   \<and> gstd_property_reader_read example_is_read 3735928559 (Some 7) (Some 0)
         (Some ''start_time'') w0 =
       gstd_property_mask_type (Some 0) (Some ''start_time'')
         (emit (G_OBJECT_GET 0 ''start_time'')
            (emit (G_OBJECT_CLASS_FIND_PROPERTY 0 ''start_time'') w0))
   \<and> gstd_property_mask_type (Some 0) (Some ''start_time'')
         (emit (G_OBJECT_GET 0 ''start_time'')
            (emit (G_OBJECT_CLASS_FIND_PROPERTY 0 ''start_time'') w0))
       \<noteq> Fault"
proof -
  let ?p = "\<lparr>pspec_name = ''start-time'', pspec_flags = 513, pspec_value_type = G_TYPE_INT64\<rparr>"
  have live: "deref w0 0 = Some e1"
    by (simp add: example_defs)
  have found: "g_object_class_find_property (g_class e1) ''start_time'' = Some ?p"
    by (simp add: example_defs)
  have overlay: "example_is_read (pspec_flags ?p)"
    and native: "pspec_flags ?p AND G_PARAM_READABLE \<noteq> 0"
    by (simp_all add: example_defs)
  have passed: "GSTD_IS_OBJECT w0 (g_object_get 3735928559 (g_props e1 (pspec_name ?p))) =
      Some False"
    by (simp add: example_defs)
  from mask_type_second_lookup_safe [where is_read = example_is_read and ifc = 7
      and residue = 3735928559, OF live found overlay native passed refl]
    live found overlay native passed
  show ?thesis by simp
qed

end
